theory Spec2Isabelle
  imports Main "HOL-Library.Char_ord" "HOL-Library.List_Lexorder"
    "HOL-Library.Product_Lexorder" "HOL-Library.Sublist" "HOL-Library.AList"
    "HOL-Library.Multiset"
begin

section \<open>The document cabinet builder (cabinet/build.py)\<close>

text \<open>
  A shallow embedding of \<^verbatim>\<open>src/cabinet/build.py\<close>. Python strings are modelled as
  \<^typ>\<open>string\<close>, a character being its code. The library functions that depend on
  the Unicode tables (\<^verbatim>\<open>str.lower\<close>, \<^verbatim>\<open>str.upper\<close>, \<^verbatim>\<open>str.title\<close>, \<^verbatim>\<open>str.strip\<close>,
  \<^verbatim>\<open>str.splitlines\<close> and the class \<^verbatim>\<open>\s\<close>) are modelled as they act on ASCII text, and
  every property that goes through one of them is stated for ASCII text only, by the
  hypothesis \<open>isascii\<close> on each string concerned. Tuples and strings are ordered as
  Python orders them: lexicographically, characters by code.
\<close>

subsection \<open>Characters and strings\<close>





definition is_upper :: "char \<Rightarrow> bool" where
  "is_upper c = (CHR ''A'' \<le> c \<and> c \<le> CHR ''Z'')"

definition is_lower :: "char \<Rightarrow> bool" where
  "is_lower c = (CHR ''a'' \<le> c \<and> c \<le> CHR ''z'')"

definition is_digit :: "char \<Rightarrow> bool" where
  "is_digit c = (CHR ''0'' \<le> c \<and> c \<le> CHR ''9'')"

text \<open>The class \<^verbatim>\<open>[a-zA-Z0-9]\<close> of the regular expression in \<^verbatim>\<open>dossier_code\<close>.\<close>

definition is_alnum :: "char \<Rightarrow> bool" where
  "is_alnum c = (is_lower c \<or> is_upper c \<or> is_digit c)"

text \<open>
  White space as \<^verbatim>\<open>str.isspace\<close>, \<^verbatim>\<open>str.strip\<close> and the class \<^verbatim>\<open>\s\<close> see it on ASCII:
  the codes 9 to 13, 28 to 31 and 32.
\<close>

definition is_space :: "char \<Rightarrow> bool" where
  "is_space c = (let n = (of_char c :: nat) in (9 \<le> n \<and> n \<le> 13) \<or> (28 \<le> n \<and> n \<le> 32))"

definition lower_char :: "char \<Rightarrow> char" where
  "lower_char c = (if is_upper c then char_of ((of_char c :: nat) + 32) else c)"

definition upper_char :: "char \<Rightarrow> char" where
  "upper_char c = (if is_lower c then char_of ((of_char c :: nat) - 32) else c)"

text \<open>\<^verbatim>\<open>str.lower\<close>, \<^verbatim>\<open>str.upper\<close> and \<^verbatim>\<open>str.strip\<close>, on ASCII text.\<close>

definition py_lower :: "string \<Rightarrow> string" where
  "py_lower s = map lower_char s"

definition py_upper :: "string \<Rightarrow> string" where
  "py_upper s = map upper_char s"

definition py_strip :: "string \<Rightarrow> string" where
  "py_strip s = rev (dropWhile is_space (rev (dropWhile is_space s)))"

text \<open>
  \<^verbatim>\<open>str.replace(old, new)\<close> for a one-character \<^verbatim>\<open>old\<close>, and \<^verbatim>\<open>sep.join(parts)\<close>.
\<close>

definition replace_char :: "char \<Rightarrow> string \<Rightarrow> string \<Rightarrow> string" where
  "replace_char old new s = concat (map (\<lambda>c. if c = old then new else [c]) s)"

fun py_join :: "string \<Rightarrow> string list \<Rightarrow> string" where
  "py_join sep [] = []"
| "py_join sep [p] = p"
| "py_join sep (p # q # ps) = p @ sep @ py_join sep (q # ps)"

text \<open>
  \<^verbatim>\<open>str.title\<close> on ASCII text: the first letter of every run of letters is upper-cased,
  the other letters of the run are lower-cased; any other character ends the run.
\<close>

fun title_from :: "bool \<Rightarrow> string \<Rightarrow> string" where
  "title_from prev [] = []"
| "title_from prev (c # cs) =
     (if is_lower c \<or> is_upper c
      then (if prev then lower_char c else upper_char c) # title_from True cs
      else c # title_from False cs)"

definition py_title :: "string \<Rightarrow> string" where
  "py_title s = title_from False s"

text \<open>Decimal digits of a natural number, and the format \<^verbatim>\<open>{idx:03d}\<close>.\<close>

fun dec :: "nat \<Rightarrow> string" where
  "dec n = (if n < 10 then [char_of (48 + n)] else dec (n div 10) @ [char_of (48 + n mod 10)])"

declare dec.simps [simp del]

definition pad3 :: "nat \<Rightarrow> string" where
  "pad3 n = replicate (3 - length (dec n)) CHR ''0'' @ dec n"

subsection \<open>The tables of the script\<close>

definition DISPLAY_NAMES :: "(string \<times> string) list" where
  "DISPLAY_NAMES = [(''wonton-soup'', ''Wonton Soup''), (''lenia-swarm'', ''Lenia Swarm'')]"

definition DOSSIER_CODES :: "(string \<times> string) list" where
  "DOSSIER_CODES = [(''wonton-soup'', ''WS''), (''lenia-swarm'', ''LS'')]"

definition CATEGORY_ORDER :: "string list" where
  "CATEGORY_ORDER = [''core'', ''backends'', ''providers'', ''corpus'']"

subsection \<open>Collection codes\<close>

text \<open>
  \<^verbatim>\<open>re.split(r"[^a-zA-Z0-9]+", s)\<close>: the pieces of \<open>s\<close> between the maximal runs of
  characters outside the class, empty pieces at the two ends included. The first
  argument is the piece read so far.
\<close>

function re_split :: "string \<Rightarrow> string \<Rightarrow> string list" where
  "re_split cur [] = [cur]"
| "re_split cur (c # cs) =
     (if is_alnum c then re_split (cur @ [c]) cs
      else cur # re_split [] (dropWhile (\<lambda>x. \<not> is_alnum x) cs))"
  by pat_completeness auto
termination
  by (relation "measure (\<lambda>(cur, s). length s)")
    (auto simp: length_dropWhile_le less_Suc_eq_le)

text \<open>
  \<^verbatim>\<open>
  def dossier_code(dossier):
      if dossier in DOSSIER_CODES:
          return DOSSIER_CODES[dossier]
      parts = [p for p in re.split(r"[^a-zA-Z0-9]+", dossier) if p]
      initials = "".join(p[0] for p in parts[:3]).upper()
      return initials or dossier[:2].upper()
  \<close>
  Every part that survives the filter is non-empty, so \<^verbatim>\<open>p[0]\<close> never raises.
\<close>

definition dossier_code :: "string \<Rightarrow> string" where
  "dossier_code dossier =
     (case map_of DOSSIER_CODES dossier of
        Some code \<Rightarrow> code
      | None \<Rightarrow>
         (let parts = filter (\<lambda>p. p \<noteq> []) (re_split [] dossier);
              initials = py_upper (map hd (take 3 parts))
          in if initials \<noteq> [] then initials else py_upper (take 2 dossier)))"



subsection \<open>Documents and the sort key\<close>

text \<open>
  A document is the dictionary \<^verbatim>\<open>{path, title, slug, category}\<close> of \<^verbatim>\<open>find_docs\<close>;
  the key \<^verbatim>\<open>doc_id\<close> is absent until \<^verbatim>\<open>assign_doc_ids\<close> has run. The collections
  are a dictionary from the collection's name to its documents, kept in insertion order.
\<close>

record entry =
  path :: string
  title :: string
  slug :: string
  category :: string
  doc_id :: "string option"

type_synonym dossiers = "(string \<times> entry list) list"

text \<open>\<^verbatim>\<open>list.index\<close>, called only under the guard \<^verbatim>\<open>category in CATEGORY_ORDER\<close>.\<close>

definition index_of :: "'a list \<Rightarrow> 'a \<Rightarrow> nat" where
  "index_of xs x = length (takeWhile (\<lambda>y. y \<noteq> x) xs)"

definition category_rank :: "string \<Rightarrow> nat" where
  "category_rank c =
     (if c \<in> set CATEGORY_ORDER then index_of CATEGORY_ORDER c else length CATEGORY_ORDER)"

definition entry_sort_key :: "entry \<Rightarrow> nat \<times> string \<times> string" where
  "entry_sort_key e = (category_rank (category e), py_lower (title e), slug e)"

subsection \<open>ID assignment\<close>

text \<open>
  \<^verbatim>\<open>
  def assign_doc_ids(dossiers):
      for dossier, entries in dossiers.items():
          code = dossier_code(dossier)
          for idx, entry in enumerate(sorted(entries, key=entry_sort_key), start=1):
              entry["doc_id"] = f"{code}-{idx:03d}"
  \<close>
  \<^verbatim>\<open>sorted\<close> returns a new list of references to the same dictionaries, and the loop
  writes through them. A reference is the position of the document in \<^verbatim>\<open>entries\<close>:
  the positions are sorted (stably) by the key of the document they point to, and the
  loop updates \<^verbatim>\<open>entries\<close> at each of them in turn.
\<close>

definition sorted_refs :: "entry list \<Rightarrow> nat list" where
  "sorted_refs entries = sort_key (\<lambda>i. entry_sort_key (entries ! i)) [0..<length entries]"

definition set_doc_id :: "string \<Rightarrow> nat \<times> nat \<Rightarrow> entry list \<Rightarrow> entry list" where
  "set_doc_id code = (\<lambda>(idx, i) es. es[i := (es ! i)\<lparr>doc_id := Some (code @ ''-'' @ pad3 idx)\<rparr>])"

definition assign_entries :: "string \<Rightarrow> entry list \<Rightarrow> entry list" where
  "assign_entries code entries =
     (let refs = sorted_refs entries
      in fold (set_doc_id code) (zip [1..<Suc (length refs)] refs) entries)"

definition assign_doc_ids :: "dossiers \<Rightarrow> dossiers" where
  "assign_doc_ids ds = map (\<lambda>(dossier, entries). (dossier, assign_entries (dossier_code dossier) entries)) ds"

subsection \<open>Title extraction\<close>

text \<open>
  \<^verbatim>\<open>str.splitlines\<close> on ASCII text: a line ends at LF, CR, CR LF, VT, FF, FS, GS or RS;
  the line ends are dropped and a final line end opens no further line. The first
  argument is the line read so far.
\<close>

definition is_linebreak :: "char \<Rightarrow> bool" where
  "is_linebreak c = (let n = (of_char c :: nat) in (10 \<le> n \<and> n \<le> 13) \<or> (28 \<le> n \<and> n \<le> 30))"

fun splitlines_from :: "string \<Rightarrow> string \<Rightarrow> string list" where
  "splitlines_from cur [] = (if cur = [] then [] else [cur])"
| "splitlines_from cur [c] =
     (if is_linebreak c then [cur] else [cur @ [c]])"
| "splitlines_from cur (c # d # cs) =
     (if c = CHR 0x0D \<and> d = CHR 0x0A then cur # splitlines_from [] cs
      else if is_linebreak c then cur # splitlines_from [] (d # cs)
      else splitlines_from (cur @ [c]) (d # cs))"

definition splitlines :: "string \<Rightarrow> string list" where
  "splitlines s = splitlines_from [] s"

text \<open>
  \<^verbatim>\<open>re.match(r"^#\s+(.+)$", line)\<close> on a line of \<^verbatim>\<open>splitlines\<close> (it holds no line
  feed, so \<^verbatim>\<open>.\<close> matches each of its characters and \<^verbatim>\<open>$\<close> only its end). The result is
  group 1. After the hash, \<^verbatim>\<open>\s+\<close> takes the whole run of white space; when nothing
  follows the run, the matcher backtracks and gives the last white space of the run
  to the group, which needs a run of two at least.
\<close>

definition match_h1 :: "string \<Rightarrow> string option" where
  "match_h1 line =
     (case line of
        [] \<Rightarrow> None
      | c # rest \<Rightarrow>
          if c \<noteq> CHR ''#'' then None
          else let ws = takeWhile is_space rest; text = dropWhile is_space rest
               in if ws = [] then None
                  else if text \<noteq> [] then Some text
                  else if 2 \<le> length ws then Some [last ws]
                  else None)"

fun first_h1 :: "string list \<Rightarrow> string option" where
  "first_h1 [] = None"
| "first_h1 (line # lines) =
     (case match_h1 line of Some g \<Rightarrow> Some (py_strip g) | None \<Rightarrow> first_h1 lines)"

fun first_nonblank :: "string list \<Rightarrow> string option" where
  "first_nonblank [] = None"
| "first_nonblank (line # lines) =
     (if py_strip line \<noteq> [] then Some (py_strip line) else first_nonblank lines)"

text \<open>
  \<^verbatim>\<open>Path.stem\<close>, which is also the name that \<^verbatim>\<open>with_suffix("")\<close> leaves: the name up to
  its last dot, when that dot is neither the first nor the last character.
\<close>

definition rfind_dot :: "string \<Rightarrow> nat option" where
  "rfind_dot name =
     (if CHR ''.'' \<in> set name
      then Some (length name - 1 - length (takeWhile (\<lambda>c. c \<noteq> CHR ''.'') (rev name)))
      else None)"

definition path_stem :: "string \<Rightarrow> string" where
  "path_stem name =
     (case rfind_dot name of
        Some i \<Rightarrow> if 0 < i \<and> i < length name - 1 then take i name else name
      | None \<Rightarrow> name)"

text \<open>
  \<^verbatim>\<open>
  def extract_title(md_path):
      lines = md_path.read_text(encoding="utf-8").splitlines()
      for line in lines[:5]:
          m = re.match(r"^#\s+(.+)$", line)
          if m:
              return m.group(1).strip()
      for line in lines[:3]:
          stripped = line.strip()
          if stripped:
              return stripped
      return md_path.stem.replace("-", " ").replace("_", " ").title()
  \<close>
  The arguments are the name of the file (the last segment of \<^verbatim>\<open>md_path\<close>, of which
  \<^verbatim>\<open>md_path.stem\<close> is a function) and the text of the file.
\<close>

definition extract_title :: "string \<Rightarrow> string \<Rightarrow> string" where
  "extract_title name content =
     (let lines = splitlines content
      in case first_h1 (take 5 lines) of
           Some t \<Rightarrow> t
         | None \<Rightarrow>
            (case first_nonblank (take 3 lines) of
               Some t \<Rightarrow> t
             | None \<Rightarrow>
                 py_title (replace_char CHR ''_'' '' '' (replace_char CHR ''-'' '' '' (path_stem name)))))"



text \<open>The line feed.\<close>

definition LF :: char where "LF = CHR 0x0A"

text \<open>
  A level-1 heading, as the specification words it: a hash, white space, and at least
  one more character.
\<close>

definition h1_line :: "string \<Rightarrow> bool" where
  "h1_line line = (case line of
      c # s # x # rest \<Rightarrow> c = CHR ''#'' \<and> is_space s
    | _ \<Rightarrow> False)"

subsection \<open>The file system and discovery\<close>

text \<open>
  A node of the file system is a file with its text or a directory with its named
  children. Names are single path segments (non-empty, without a slash, neither
  \<^verbatim>\<open>.\<close> nor \<^verbatim>\<open>..\<close>); symbolic links, permissions and undecodable files are outside
  the model.
\<close>

datatype fsnode = File string | Dir "(string \<times> fsnode) list"

text \<open>The exceptions of the interpreter that the model can raise.\<close>

datatype pyerror = IsADirectoryError | NotADirectoryError | FileExistsError
  | FileNotFoundError | KeyError | ValueError

text \<open>
  The segments of a relative path, as \<^verbatim>\<open>pathlib\<close> parses it: split at the slashes, empty
  segments and \<^verbatim>\<open>.\<close> dropped.
\<close>

fun split_on :: "char \<Rightarrow> string \<Rightarrow> string \<Rightarrow> string list" where
  "split_on sep cur [] = [cur]"
| "split_on sep cur (c # cs) =
     (if c = sep then cur # split_on sep [] cs else split_on sep (cur @ [c]) cs)"

definition path_parts :: "string \<Rightarrow> string list" where
  "path_parts s = filter (\<lambda>p. p \<noteq> [] \<and> p \<noteq> ''.'') (split_on CHR ''/'' [] s)"

text \<open>
  \<^verbatim>\<open>docs_dir.rglob("*.md")\<close>: every node below the directory whose name ends in
  \<^verbatim>\<open>.md\<close>, with its path relative to the directory. A file has nothing below it.
\<close>

definition match_md :: "string \<Rightarrow> bool" where
  "match_md name = suffix ''.md'' name"

fun rglob_md :: "string list \<Rightarrow> fsnode \<Rightarrow> (string list \<times> fsnode) list" where
  "rglob_md pre (File _) = []"
| "rglob_md pre (Dir cs) =
     concat (map (\<lambda>(n, ch). (if match_md n then [(pre @ [n], ch)] else []) @ rglob_md (pre @ [n]) ch) cs)"

text \<open>
  \<^verbatim>\<open>root.glob("*/docs")\<close>: the child \<^verbatim>\<open>docs\<close> of every directory child of the root, with
  the name of that directory.
\<close>

definition glob_docs :: "(string \<times> fsnode) list \<Rightarrow> (string \<times> fsnode) list" where
  "glob_docs cs =
     concat (map (\<lambda>(name, nd).
        case nd of
          File _ \<Rightarrow> []
        | Dir sub \<Rightarrow> (case map_of sub ''docs'' of Some d \<Rightarrow> [(name, d)] | None \<Rightarrow> [])) cs)"

text \<open>
  The dictionary \<^verbatim>\<open>find_docs\<close> builds for the Markdown file at the relative path \<open>rel\<close>
  (never empty) of the collection \<open>dossier\<close>:
  \<^verbatim>\<open>
  title = extract_title(md)
  rel = md.relative_to(docs_dir)
  slug = rel.with_suffix("").as_posix()
  category = rel.parts[0] if len(rel.parts) > 1 else ""
  entries.append({"path": str(md), "title": title, "slug": slug, "category": category})
  \<close>
\<close>

definition mk_entry :: "string \<Rightarrow> string \<Rightarrow> string list \<Rightarrow> string \<Rightarrow> entry" where
  "mk_entry root dossier rel content =
     \<lparr>path = root @ ''/dossiers/'' @ dossier @ ''/docs/'' @ py_join ''/'' rel,
      title = extract_title (last rel) content,
      slug = py_join ''/'' (butlast rel @ [path_stem (last rel)]),
      category = (if 1 < length rel then hd rel else []),
      doc_id = None\<rparr>"

text \<open>
  The inner loop of \<^verbatim>\<open>find_docs\<close> over the sorted matches; reading a directory whose
  name ends in \<^verbatim>\<open>.md\<close> raises.
\<close>

fun collect_entries :: "string \<Rightarrow> string \<Rightarrow> (string list \<times> fsnode) list \<Rightarrow> pyerror + entry list" where
  "collect_entries root dossier [] = Inr []"
| "collect_entries root dossier ((rel, nd) # mds) =
     (case nd of
        Dir _ \<Rightarrow> Inl IsADirectoryError
      | File content \<Rightarrow>
          (case collect_entries root dossier mds of
             Inl e \<Rightarrow> Inl e
           | Inr es \<Rightarrow> Inr (mk_entry root dossier rel content # es)))"

text \<open>
  The outer loop, over the sorted \<^verbatim>\<open>docs\<close> folders:
  \<^verbatim>\<open>
  for docs_dir in sorted(root.glob("*/docs")):
      dossier = docs_dir.parent.name
      entries = []
      for md in sorted(docs_dir.rglob("*.md")): ...
      if entries:
          dossiers[dossier] = entries
  \<close>
  Paths are sorted by their segments.
\<close>

fun find_docs_loop :: "string \<Rightarrow> (string \<times> fsnode) list \<Rightarrow> dossiers \<Rightarrow> pyerror + dossiers" where
  "find_docs_loop root [] acc = Inr acc"
| "find_docs_loop root ((dossier, docs_dir) # rest) acc =
     (case collect_entries root dossier (sort_key fst (rglob_md [] docs_dir)) of
        Inl e \<Rightarrow> Inl e
      | Inr entries \<Rightarrow>
          find_docs_loop root rest
            (if entries \<noteq> [] then AList.update dossier entries acc else acc))"

text \<open>
  \<^verbatim>\<open>find_docs\<close> for the one root \<^verbatim>\<open>REPO_ROOT/dossiers\<close>: a root that is no directory
  gives the empty dictionary.
\<close>

definition find_docs :: "string \<Rightarrow> fsnode option \<Rightarrow> pyerror + dossiers" where
  "find_docs root_str root =
     (case root of
        Some (Dir cs) \<Rightarrow> find_docs_loop root_str (sort_key fst (glob_docs cs)) []
      | _ \<Rightarrow> Inr [])"

subsection \<open>HTML escaping and string replacement\<close>

text \<open>
  \<^verbatim>\<open>html.escape(s)\<close> with its default \<^verbatim>\<open>quote=True\<close>: five replacements, the ampersand
  first.
\<close>

definition html_escape :: "string \<Rightarrow> string" where
  "html_escape s =
     replace_char (CHR 0x27) ''&#x27;''
       (replace_char (CHR 0x22) ''&quot;''
         (replace_char CHR ''>'' ''&gt;''
           (replace_char CHR ''<'' ''&lt;''
             (replace_char CHR ''&'' ''&amp;'' s))))"

text \<open>
  \<^verbatim>\<open>str.replace(old, new)\<close>: every occurrence of \<^verbatim>\<open>old\<close>, scanning from the left without
  overlap; an empty \<^verbatim>\<open>old\<close> matches before every character and at the end.
\<close>

fun replace_all :: "string \<Rightarrow> string \<Rightarrow> string \<Rightarrow> string" where
  "replace_all old new [] = (if old = [] then new else [])"
| "replace_all old new (c # cs) =
     (if old = [] then new @ c # replace_all old new cs
      else if prefix old (c # cs) then new @ replace_all old new (drop (length old) (c # cs))
      else c # replace_all old new cs)"

subsection \<open>Index assembly\<close>

definition display_name :: "string \<Rightarrow> string" where
  "display_name dossier =
     (case map_of DISPLAY_NAMES dossier of
        Some d \<Rightarrow> d
      | None \<Rightarrow> py_title (replace_char CHR ''-'' '' '' dossier))"

text \<open>
  One link of a drawer, the body of the inner loop of \<^verbatim>\<open>build_index\<close>:
  \<^verbatim>\<open>
  href = f"{dossier}/{entry['slug']}/"
  doc_id = html.escape(entry["doc_id"])
  cat_span = ""
  if entry["category"]:
      cat_span = (f'<span class="drawer-item-category">'
                  f'{html.escape(entry["category"])}</span>')
  items_html.append(
      f'<a class="drawer-item" href="{html.escape(href)}">'
      f'<span class="drawer-item-id">{doc_id}</span>'
      f'<span class="drawer-item-title">'
      f'{html.escape(entry["title"])}</span>'
      f'{cat_span}'
      f"</a>")
  \<close>
  Reading \<^verbatim>\<open>entry["doc_id"]\<close> raises \<^verbatim>\<open>KeyError\<close> when no ID was assigned.
\<close>

definition cat_span :: "entry \<Rightarrow> string" where
  \<open>cat_span e =
     (if category e \<noteq> []
      then ''<span class="drawer-item-category">'' @ html_escape (category e) @ ''</span>''
      else [])\<close>

definition item_html :: "string \<Rightarrow> entry \<Rightarrow> pyerror + string" where
  \<open>item_html dossier e =
     (case doc_id e of
        None \<Rightarrow> Inl KeyError
      | Some i \<Rightarrow>
          Inr (''<a class="drawer-item" href="'' @ html_escape (dossier @ ''/'' @ slug e @ ''/'') @ ''">''
             @ ''<span class="drawer-item-id">'' @ html_escape i @ ''</span>''
             @ ''<span class="drawer-item-title">'' @ html_escape (title e) @ ''</span>''
             @ cat_span e
             @ ''</a>''))\<close>

text \<open>A loop that stops at the first exception.\<close>

fun map_err :: "('a \<Rightarrow> pyerror + 'b) \<Rightarrow> 'a list \<Rightarrow> pyerror + 'b list" where
  "map_err f [] = Inr []"
| "map_err f (x # xs) =
     (case f x of
        Inl e \<Rightarrow> Inl e
      | Inr y \<Rightarrow> (case map_err f xs of Inl e \<Rightarrow> Inl e | Inr ys \<Rightarrow> Inr (y # ys)))"

text \<open>
  One drawer, the body of the outer loop of \<^verbatim>\<open>build_index\<close>: the links of the
  collection's documents in sort order, under a tab with the display name and the
  number of documents.
\<close>

definition drawer_html :: "string \<Rightarrow> entry list \<Rightarrow> pyerror + string" where
  \<open>drawer_html dossier entries =
     (case map_err (item_html dossier) (sort_key entry_sort_key entries) of
        Inl e \<Rightarrow> Inl e
      | Inr items_html \<Rightarrow>
          Inr (''<div class="cabinet-drawer">''
             @ ''<div class="drawer-tab">''
             @ html_escape (display_name dossier)
             @ ''<span class="drawer-tab-count">'' @ dec (length entries) @ ''</span>''
             @ ''</div>''
             @ ''<div class="drawer-body">''
             @ concat items_html
             @ ''</div></div>''))\<close>

text \<open>
  \<^verbatim>\<open>for dossier in sorted(dossiers.keys()): entries = dossiers[dossier] ...\<close>
\<close>

definition drawers_html :: "dossiers \<Rightarrow> pyerror + string list" where
  "drawers_html ds =
     map_err (\<lambda>dossier. case map_of ds dossier of
                 None \<Rightarrow> Inl KeyError
               | Some entries \<Rightarrow> drawer_html dossier entries)
       (sort (map fst ds))"

definition DRAWERS_MARKER :: string where
  "DRAWERS_MARKER = ''<!-- DRAWERS -->''"

definition index_html :: "string \<Rightarrow> string list \<Rightarrow> string" where
  "index_html template drawers = replace_all DRAWERS_MARKER (py_join [LF] drawers) template"

subsection \<open>The run: state, output tree and the external converter\<close>

text \<open>
  What a run reads: the string of \<^verbatim>\<open>REPO_ROOT\<close> (without a final slash), whether
  \<^verbatim>\<open>shutil.which("pandoc")\<close> finds the converter, the node at \<^verbatim>\<open>REPO_ROOT/dossiers\<close> (if
  any), the children of the directory \<^verbatim>\<open>site/cabinet\<close> when the run starts (none when it
  does not exist), the converter as a function from its command line to its exit
  status, standard output and standard error, and the build time stamp.
\<close>

record world =
  repo_root :: string
  pandoc_found :: bool
  dossiers_root :: "fsnode option"
  cabinet_dir :: "(string \<times> fsnode) list"
  pandoc :: "string list \<Rightarrow> int \<times> string \<times> string"
  built_at :: string

text \<open>
  What a run changes: the children of \<^verbatim>\<open>site/cabinet\<close>, the lines printed to standard
  output and to standard error, and the command lines the converter was run with.
\<close>

record state =
  cabinet :: "(string \<times> fsnode) list"
  out :: "string list"
  err :: "string list"
  runs :: "string list list"

text \<open>
  How a run ends: \<^verbatim>\<open>sys.exit(n)\<close>, the end of \<^verbatim>\<open>main\<close> being \<^verbatim>\<open>Exit 0\<close>, or an uncaught
  exception (the interpreter then exits with status 1; its traceback is not modelled).
\<close>

datatype stop = Exit nat | Uncaught pyerror

fun exit_status :: "stop \<Rightarrow> nat" where
  "exit_status (Exit n) = n"
| "exit_status (Uncaught e) = 1"

fun is_dir :: "fsnode \<Rightarrow> bool" where
  "is_dir (Dir _) = True"
| "is_dir (File _) = False"

text \<open>
  \<^verbatim>\<open>Path.mkdir(parents=True, exist_ok=True)\<close> below a directory with the children
  \<open>cs\<close>: existing directories are kept, missing ones are created, a file in the way
  raises.
\<close>

fun mkdir_p :: "string list \<Rightarrow> (string \<times> fsnode) list \<Rightarrow> pyerror + (string \<times> fsnode) list" where
  "mkdir_p [] cs = Inr cs"
| "mkdir_p (p # ps) cs =
     (case map_of cs p of
        None \<Rightarrow>
          (case mkdir_p ps [] of
             Inl e \<Rightarrow> Inl e
           | Inr sub \<Rightarrow> Inr (AList.update p (Dir sub) cs))
      | Some (File _) \<Rightarrow> Inl (if ps = [] then FileExistsError else NotADirectoryError)
      | Some (Dir sub) \<Rightarrow>
          (case mkdir_p ps sub of
             Inl e \<Rightarrow> Inl e
           | Inr sub' \<Rightarrow> Inr (AList.update p (Dir sub') cs)))"

text \<open>
  \<^verbatim>\<open>Path.write_text\<close>: the file is created or overwritten; a directory at the path, a
  file in the way or a missing parent raises.
\<close>

fun write_file :: "string list \<Rightarrow> string \<Rightarrow> (string \<times> fsnode) list \<Rightarrow> pyerror + (string \<times> fsnode) list" where
  "write_file [] content cs = Inl IsADirectoryError"
| "write_file [n] content cs =
     (case map_of cs n of
        Some (Dir _) \<Rightarrow> Inl IsADirectoryError
      | _ \<Rightarrow> Inr (AList.update n (File content) cs))"
| "write_file (p # q # ps) content cs =
     (case map_of cs p of
        None \<Rightarrow> Inl FileNotFoundError
      | Some (File _) \<Rightarrow> Inl NotADirectoryError
      | Some (Dir sub) \<Rightarrow>
          (case write_file (q # ps) content sub of
             Inl e \<Rightarrow> Inl e
           | Inr sub' \<Rightarrow> Inr (AList.update p (Dir sub') cs)))"

text \<open>The node at a path below a directory with the children \<open>cs\<close>.\<close>

fun lookup_path :: "string list \<Rightarrow> (string \<times> fsnode) list \<Rightarrow> fsnode option" where
  "lookup_path [] cs = Some (Dir cs)"
| "lookup_path [n] cs = map_of cs n"
| "lookup_path (p # q # ps) cs =
     (case map_of cs p of
        Some (Dir sub) \<Rightarrow> lookup_path (q # ps) sub
      | _ \<Rightarrow> None)"

subsection \<open>Rendering\<close>

text \<open>
  \<^verbatim>\<open>output_dir_for(dossier, slug)\<close>, relative to \<^verbatim>\<open>CABINET_DIR\<close>;
  \<^verbatim>\<open>md_path.relative_to(REPO_ROOT).as_posix()\<close>, which raises \<^verbatim>\<open>ValueError\<close> for a path
  outside the repository; and the command line of \<^verbatim>\<open>render_doc\<close>.
\<close>

definition output_dir_for :: "string \<Rightarrow> string \<Rightarrow> string list" where
  "output_dir_for dossier sl = path_parts dossier @ path_parts sl"

definition relative_to_root :: "string \<Rightarrow> string \<Rightarrow> string option" where
  "relative_to_root root p =
     (if prefix (root @ ''/'') p then Some (drop (length root + 1) p) else None)"

definition pandoc_cmd :: "world \<Rightarrow> string \<Rightarrow> entry \<Rightarrow> string \<Rightarrow> string \<Rightarrow> string list" where
  "pandoc_cmd w dossier e source_path i =
     [''pandoc'', path e,
      ''--from=markdown+lists_without_preceding_blankline'',
      ''--to=html5'',
      ''--standalone'',
      ''--wrap=none'',
      ''--template='' @ repo_root w @ ''/site/cabinet/cabinet-template.html'',
      ''--toc'',
      ''--toc-depth=3'',
      ''--mathml'',
      ''--metadata'', ''lang=en'',
      ''--metadata'', ''pagetitle='' @ title e @ '' | SPECTER Labs'',
      ''--metadata'', ''slug='' @ slug e,
      ''--metadata'', ''doc_id='' @ i,
      ''--metadata'', ''dossier='' @ display_name dossier,
      ''--metadata'', ''root_prefix='' @ concat (replicate (2 + length (path_parts (slug e))) ''../''),
      ''--metadata'', ''source_path='' @ source_path,
      ''--metadata'', ''built_at='' @ built_at w]
     @ (if category e \<noteq> [] then [''--metadata'', ''category='' @ category e] else [])"

text \<open>
  \<^verbatim>\<open>render_doc\<close>: the output directory is made first; the command line is built; the
  converter runs; on a non-zero status the failure is printed to standard error and the
  run exits with status 1; otherwise the captured output is written to
  \<^verbatim>\<open>index.html\<close> and the file is printed. The result is \<open>None\<close> when the
  function returns.
\<close>

definition render_doc :: "world \<Rightarrow> string \<Rightarrow> entry \<Rightarrow> state \<Rightarrow> stop option \<times> state" where
  "render_doc w dossier e s =
     (let out_dir = output_dir_for dossier (slug e) in
      case mkdir_p out_dir (cabinet s) of
        Inl x \<Rightarrow> (Some (Uncaught x), s)
      | Inr cab1 \<Rightarrow>
         (let s1 = s\<lparr>cabinet := cab1\<rparr> in
          case relative_to_root (repo_root w) (path e) of
            None \<Rightarrow> (Some (Uncaught ValueError), s1)
          | Some source_path \<Rightarrow>
             (case doc_id e of
                None \<Rightarrow> (Some (Uncaught KeyError), s1)
              | Some i \<Rightarrow>
                 (let cmd = pandoc_cmd w dossier e source_path i;
                      (returncode, stdout, stderr) = pandoc w cmd;
                      s2 = s1\<lparr>runs := runs s1 @ [cmd]\<rparr>
                  in if returncode \<noteq> 0
                     then (Some (Exit 1),
                           s2\<lparr>err := err s2 @ [''FAIL '' @ path e @ '': '' @ py_strip stderr]\<rparr>)
                     else
                       (case write_file (out_dir @ [''index.html'']) stdout (cabinet s2) of
                          Inl x \<Rightarrow> (Some (Uncaught x), s2)
                        | Inr cab2 \<Rightarrow>
                            (None,
                             s2\<lparr>cabinet := cab2,
                                out := out s2 @
                                  [''  cabinet/'' @ py_join ''/'' (out_dir @ [''index.html''])]\<rparr>))))))"

fun render_entries :: "world \<Rightarrow> string \<Rightarrow> entry list \<Rightarrow> state \<Rightarrow> stop option \<times> state" where
  "render_entries w dossier [] s = (None, s)"
| "render_entries w dossier (e # es) s =
     (case render_doc w dossier e s of
        (None, s') \<Rightarrow> render_entries w dossier es s'
      | (Some x, s') \<Rightarrow> (Some x, s'))"

text \<open>
  \<^verbatim>\<open>
  for dossier, entries in sorted(dossiers.items()):
      print(f"[{dossier}]")
      for entry in entries:
          render_doc(entry, dossier, built_at)
  \<close>
\<close>

fun render_dossiers :: "world \<Rightarrow> dossiers \<Rightarrow> state \<Rightarrow> stop option \<times> state" where
  "render_dossiers w [] s = (None, s)"
| "render_dossiers w ((dossier, entries) # ds) s =
     (case render_entries w dossier entries (s\<lparr>out := out s @ [''['' @ dossier @ '']'']\<rparr>) of
        (None, s') \<Rightarrow> render_dossiers w ds s'
      | (Some x, s') \<Rightarrow> (Some x, s'))"

text \<open>
  \<^verbatim>\<open>build_index\<close>: the template is read, the drawers are built, the marker is replaced
  and the page is written to \<^verbatim>\<open>index.html\<close> in the cabinet directory.
\<close>

definition build_index :: "dossiers \<Rightarrow> state \<Rightarrow> stop option \<times> state" where
  "build_index ds s =
     (case map_of (cabinet s) ''index-template.html'' of
        None \<Rightarrow> (Some (Uncaught FileNotFoundError), s)
      | Some (Dir _) \<Rightarrow> (Some (Uncaught IsADirectoryError), s)
      | Some (File template) \<Rightarrow>
         (case drawers_html ds of
            Inl x \<Rightarrow> (Some (Uncaught x), s)
          | Inr drawers \<Rightarrow>
             (case write_file [''index.html''] (index_html template drawers) (cabinet s) of
                Inl x \<Rightarrow> (Some (Uncaught x), s)
              | Inr cab \<Rightarrow> (None, s\<lparr>cabinet := cab, out := out s @ [''  cabinet/index.html'']\<rparr>))))"

subsection \<open>Cleanup and the main function\<close>

text \<open>
  \<^verbatim>\<open>
  def clean_generated():
      for child in CABINET_DIR.iterdir():
          if child.is_dir() and child.name not in {".", ".."}:
              shutil.rmtree(child)
  \<close>
  Every child that passes the test goes, with all below it; the others stay as they are.
\<close>

definition clean_generated :: "(string \<times> fsnode) list \<Rightarrow> (string \<times> fsnode) list" where
  "clean_generated cs = filter (\<lambda>(name, nd). \<not> (is_dir nd \<and> name \<notin> {''.'', ''..''})) cs"

definition template_is_file :: "(string \<times> fsnode) list \<Rightarrow> bool" where
  "template_is_file cs =
     (case map_of cs ''cabinet-template.html'' of Some (File _) \<Rightarrow> True | _ \<Rightarrow> False)"

definition initial_state :: "world \<Rightarrow> state" where
  "initial_state w = \<lparr>cabinet = cabinet_dir w, out = [], err = [], runs = []\<rparr>"

text \<open>
  \<^verbatim>\<open>main\<close>: the three checks, each ending the run with status 1 and a line on standard
  error; then ID assignment, the summary line, cleanup, rendering, the index and
  \<^verbatim>\<open>Done.\<close>
\<close>

definition main :: "world \<Rightarrow> stop \<times> state" where
  "main w =
     (let s0 = initial_state w in
      if \<not> pandoc_found w
      then (Exit 1, s0\<lparr>err := err s0 @ [''pandoc not found. Install pandoc >= 3.x.'']\<rparr>)
      else if \<not> template_is_file (cabinet s0)
      then (Exit 1,
            s0\<lparr>err := err s0 @
               [''Missing template: '' @ repo_root w @ ''/site/cabinet/cabinet-template.html'']\<rparr>)
      else
        (case find_docs (repo_root w) (dossiers_root w) of
           Inl x \<Rightarrow> (Uncaught x, s0)
         | Inr found \<Rightarrow>
            if found = []
            then (Exit 1, s0\<lparr>err := err s0 @ [''No docs found in dossiers/*/docs/.'']\<rparr>)
            else
              (let ds = assign_doc_ids found;
                   total = sum_list (map (\<lambda>(dossier, entries). length entries) ds);
                   s1 = s0\<lparr>out := out s0 @
                          [''Cabinet: '' @ dec total @ '' docs across '' @ dec (length ds) @ '' dossiers'']\<rparr>;
                   s2 = s1\<lparr>cabinet := clean_generated (cabinet s1)\<rparr>
               in case render_dossiers w (sort_key fst ds) s2 of
                    (Some x, s3) \<Rightarrow> (x, s3)
                  | (None, s3) \<Rightarrow>
                     (case build_index ds s3 of
                        (Some x, s4) \<Rightarrow> (x, s4)
                      | (None, s4) \<Rightarrow> (Exit 0, s4\<lparr>out := out s4 @ [''Done.'']\<rparr>)))))"

subsection \<open>A small world, for the concrete instances\<close>

definition sample_tree :: fsnode where
  "sample_tree = Dir [
     (''alpha-beta'', Dir [(''docs'', Dir [
         (''zed.md'', File ''# Zed <script>''),
         (''core'', Dir [(''intro.md'', File ''intro''), (''notes.txt'', File ''n'')])])]),
     (''empty-one'', Dir [(''docs'', Dir [(''readme.txt'', File ''x'')])])]"

definition sample_cabinet :: "(string \<times> fsnode) list" where
  "sample_cabinet =
     [(''cabinet-template.html'', File ''T''),
      (''index-template.html'', File ''<ul><!-- DRAWERS --></ul>''),
      (''old'', Dir [(''index.html'', File ''stale'')])]"

definition sample_world :: world where
  "sample_world =
     \<lparr>repo_root = ''/r'', pandoc_found = True, dossiers_root = Some sample_tree,
      cabinet_dir = sample_cabinet,
      pandoc = (\<lambda>cmd. (0, ''<html>'' @ cmd ! 15 @ ''</html>'', [])),
      built_at = ''2024-01-01T00:00:00Z''\<rparr>"

text \<open>The line that a failed check of \<^verbatim>\<open>main\<close> prints to standard error.\<close>

definition precheck_message :: "world \<Rightarrow> string" where
  "precheck_message w =
     (if \<not> pandoc_found w then ''pandoc not found. Install pandoc >= 3.x.''
      else if \<not> template_is_file (cabinet_dir w)
      then ''Missing template: '' @ repo_root w @ ''/site/cabinet/cabinet-template.html''
      else ''No docs found in dossiers/*/docs/.'')"

text \<open>What discovery finds in the small world.\<close>

definition sample_found :: dossiers where
  "sample_found =
     [(''alpha-beta'',
       [\<lparr>path = ''/r/dossiers/alpha-beta/docs/core/intro.md'', title = ''intro'',
          slug = ''core/intro'', category = ''core'', doc_id = None\<rparr>,
        \<lparr>path = ''/r/dossiers/alpha-beta/docs/zed.md'', title = ''Zed <script>'',
          slug = ''zed'', category = [], doc_id = None\<rparr>])]"

subsection \<open>Observations on a run\<close>

text \<open>
  The text of the file at a path of the output directory, if there is a file there.
\<close>

definition file_at :: "string list \<Rightarrow> (string \<times> fsnode) list \<Rightarrow> string option" where
  "file_at p cs = (case lookup_path p cs of Some (File c) \<Rightarrow> Some c | _ \<Rightarrow> None)"







section \<open>Properties\<close>

subsection \<open>Case mapping\<close>



subsection \<open>Collection codes\<close>







subsection \<open>ID assignment\<close>





lemma sorted_refs_props:
  "length (sorted_refs es) = length es" "distinct (sorted_refs es)"
  "set (sorted_refs es) = {0..<length es}"
  by (simp_all add: sorted_refs_def)

lemma fold_set_doc_id:
  "length ns = length rs \<Longrightarrow> distinct rs \<Longrightarrow> set rs \<subseteq> {0..<length es} \<Longrightarrow>
   length (fold (set_doc_id code) (zip ns rs) es) = length es \<and>
   (\<forall>k<length rs. fold (set_doc_id code) (zip ns rs) es ! (rs ! k) =
       (es ! (rs ! k))\<lparr>doc_id := Some (code @ ''-'' @ pad3 (ns ! k))\<rparr>) \<and>
   (\<forall>j<length es. j \<notin> set rs \<longrightarrow> fold (set_doc_id code) (zip ns rs) es ! j = es ! j)"
proof (induction rs arbitrary: ns es)
  case Nil
  then show ?case by simp
next
  case (Cons r rs)
  then obtain m ms where ns: "ns = m # ms" by (cases ns) auto
  let ?es1 = "es[r := (es ! r)\<lparr>doc_id := Some (code @ ''-'' @ pad3 m)\<rparr>]"
  let ?res = "fold (set_doc_id code) (zip ms rs) ?es1"
  have step: "fold (set_doc_id code) (zip ns (r # rs)) es = ?res"
    by (simp add: ns set_doc_id_def)
  have r: "r < length es" "r \<notin> set rs" using Cons.prems by auto
  have ih: "length ?res = length ?es1 \<and>
     (\<forall>k<length rs. ?res ! (rs ! k) = (?es1 ! (rs ! k))\<lparr>doc_id := Some (code @ ''-'' @ pad3 (ms ! k))\<rparr>) \<and>
     (\<forall>j<length ?es1. j \<notin> set rs \<longrightarrow> ?res ! j = ?es1 ! j)"
    using Cons.prems by (intro Cons.IH) (auto simp: ns)
  have len: "length ?res = length es" using ih by simp
  have hit: "?res ! ((r # rs) ! k) = (es ! ((r # rs) ! k))\<lparr>doc_id := Some (code @ ''-'' @ pad3 (ns ! k))\<rparr>"
    if k: "k < length (r # rs)" for k
  proof (cases k)
    case 0
    then show ?thesis using ih r by (simp add: ns)
  next
    case (Suc k')
    then have k': "k' < length rs" using k by simp
    then have "rs ! k' \<noteq> r" using r by (metis nth_mem)
    then show ?thesis using ih k' by (simp add: Suc ns)
  qed
  have miss: "?res ! j = es ! j" if "j < length es" "j \<notin> set (r # rs)" for j
    using ih that by simp
  show ?case unfolding step using len hit miss by blast
qed

lemma assign_entries_nth:
  "length (assign_entries code es) = length es"
  "k < length es \<Longrightarrow> assign_entries code es ! (sorted_refs es ! k) =
      (es ! (sorted_refs es ! k))\<lparr>doc_id := Some (code @ ''-'' @ pad3 (Suc k))\<rparr>"
proof -
  let ?rs = "sorted_refs es"
  let ?ns = "[1..<Suc (length ?rs)]"
  have f: "length (fold (set_doc_id code) (zip ?ns ?rs) es) = length es \<and>
   (\<forall>k<length ?rs. fold (set_doc_id code) (zip ?ns ?rs) es ! (?rs ! k) =
       (es ! (?rs ! k))\<lparr>doc_id := Some (code @ ''-'' @ pad3 (?ns ! k))\<rparr>) \<and>
   (\<forall>j<length es. j \<notin> set ?rs \<longrightarrow> fold (set_doc_id code) (zip ?ns ?rs) es ! j = es ! j)"
    by (rule fold_set_doc_id) (simp_all add: sorted_refs_props del: upt_Suc)
  show "length (assign_entries code es) = length es"
    using f by (simp add: assign_entries_def Let_def)
  assume k: "k < length es"
  then have "?ns ! k = Suc k"
    by (simp add: sorted_refs_props nth_upt del: upt_Suc)
  then show "assign_entries code es ! (?rs ! k) =
      (es ! (?rs ! k))\<lparr>doc_id := Some (code @ ''-'' @ pad3 (Suc k))\<rparr>"
    using f k by (simp add: assign_entries_def Let_def sorted_refs_props del: upt_Suc)
qed













lemma length_dec_pos: "0 < length (dec n)"
  by (subst dec.simps) simp









subsection \<open>Title extraction\<close>

lemma h1_line_iff:
  "h1_line line \<longleftrightarrow>
     (\<exists>ws body. line = CHR ''#'' # ws @ body \<and> ws \<noteq> [] \<and> (\<forall>c\<in>set ws. is_space c) \<and> body \<noteq> [])"
proof
  assume "h1_line line"
  then obtain s x rest where "line = CHR ''#'' # [s] @ (x # rest)" "is_space s"
    by (auto simp: h1_line_def split: list.splits)
  then show "\<exists>ws body. line = CHR ''#'' # ws @ body \<and> ws \<noteq> [] \<and> (\<forall>c\<in>set ws. is_space c) \<and> body \<noteq> []"
    by (intro exI[of _ "[s]"] exI[of _ "x # rest"]) simp
next
  assume "\<exists>ws body. line = CHR ''#'' # ws @ body \<and> ws \<noteq> [] \<and> (\<forall>c\<in>set ws. is_space c) \<and> body \<noteq> []"
  then obtain ws body where l: "line = CHR ''#'' # ws @ body" "ws \<noteq> []" "\<forall>c\<in>set ws. is_space c" "body \<noteq> []"
    by blast
  then obtain s ws' where ws: "ws = s # ws'" by (cases ws) auto
  obtain x t where t: "ws' @ body = x # t" using l(4) by (cases "ws' @ body") auto
  show "h1_line line" using l(3) by (simp add: l(1) ws t h1_line_def)
qed
















subsection \<open>The checks of the main function\<close>

text \<open>
  Claim C5. When the converter is not found, or the render template is no file, or
  discovery finds no document, the run prints one line to standard error and exits with
  status 1; the output directory is as it was (nothing cleaned, nothing written), the
  converter was not run and nothing was printed to standard output.
\<close>

theorem main_precheck_fatal:
  assumes "\<not> pandoc_found w \<or> \<not> template_is_file (cabinet_dir w)
           \<or> find_docs (repo_root w) (dossiers_root w) = Inr []"
  shows "fst (main w) = Exit 1 \<and> exit_status (fst (main w)) = 1
       \<and> err (snd (main w)) = [precheck_message w]
       \<and> cabinet (snd (main w)) = cabinet_dir w
       \<and> runs (snd (main w)) = []
       \<and> out (snd (main w)) = []"
  using assms
  by (auto simp: main_def Let_def initial_state_def precheck_message_def)

lemma find_docs_no_root: "find_docs r None = Inr []"
  by (simp add: find_docs_def)

theorem main_precheck_fatal_witness:
  "main (sample_world\<lparr>dossiers_root := None\<rparr>) =
     (Exit 1, \<lparr>cabinet = sample_cabinet, out = [],
               err = [''No docs found in dossiers/*/docs/.''], runs = []\<rparr>)"
proof -
  let ?w = "sample_world\<lparr>dossiers_root := None\<rparr>"
  have h: "\<not> pandoc_found ?w \<or> \<not> template_is_file (cabinet_dir ?w)
           \<or> find_docs (repo_root ?w) (dossiers_root ?w) = Inr []"
    by (simp add: find_docs_def)
  have m: "precheck_message ?w = ''No docs found in dossiers/*/docs/.''"
    by (simp add: precheck_message_def sample_world_def sample_cabinet_def template_is_file_def)
  have c: "cabinet_dir ?w = sample_cabinet" by (simp add: sample_world_def)
  show ?thesis
    using main_precheck_fatal[OF h] m c
    by (cases "main ?w"; cases "snd (main ?w)") auto
qed

subsection \<open>Cleanup\<close>

lemma map_of_clean_keep:
  assumes "map_of cs n = Some nd" and "\<not> is_dir nd \<or> n \<in> {''.'', ''..''}"
  shows "map_of (clean_generated cs) n = Some nd"
  unfolding clean_generated_def
  using assms by (intro map_of_filter_in) auto

lemma map_of_clean_sub:
  assumes "distinct (map fst cs)" and "map_of (clean_generated cs) n = Some nd"
  shows "map_of cs n = Some nd \<and> (\<not> is_dir nd \<or> n \<in> {''.'', ''..''})"
proof -
  have "(n, nd) \<in> set (clean_generated cs)" using assms(2) by (rule map_of_SomeD)
  then have "(n, nd) \<in> set cs" and k: "\<not> is_dir nd \<or> n \<in> {''.'', ''..''}"
    by (auto simp: clean_generated_def)
  then show ?thesis using assms(1) by simp
qed

lemma map_of_clean_gone:
  assumes "distinct (map fst cs)" and "map_of cs n = Some nd" and "is_dir nd" and "n \<notin> {''.'', ''..''}"
  shows "map_of (clean_generated cs) n = None"
proof (cases "map_of (clean_generated cs) n")
  case None
  then show ?thesis .
next
  case (Some nd')
  then have "map_of cs n = Some nd' \<and> (\<not> is_dir nd' \<or> n \<in> {''.'', ''..''})"
    using assms(1) by (intro map_of_clean_sub)
  then show ?thesis using assms by auto
qed

lemma map_of_clean_none:
  assumes "map_of cs n = None"
  shows "map_of (clean_generated cs) n = None"
proof -
  have "n \<notin> fst ` set cs" using assms by (simp add: map_of_eq_None_iff)
  then have "n \<notin> fst ` set (clean_generated cs)" by (auto simp: clean_generated_def)
  then show ?thesis by (simp add: map_of_eq_None_iff)
qed

lemma lookup_path_gone: "map_of cs n = None \<Longrightarrow> lookup_path (n # p) cs = None"
  by (cases p) simp_all

lemma main_after_checks:
  assumes "pandoc_found w" "template_is_file (cabinet_dir w)"
    "find_docs (repo_root w) (dossiers_root w) = Inr found" "found \<noteq> []"
  shows "main w =
     (case render_dossiers w (sort_key fst (assign_doc_ids found))
        \<lparr>cabinet = clean_generated (cabinet_dir w),
         out = [''Cabinet: '' @ dec (sum_list (map (\<lambda>(dossier, entries). length entries) (assign_doc_ids found)))
                 @ '' docs across '' @ dec (length (assign_doc_ids found)) @ '' dossiers''],
         err = [], runs = []\<rparr> of
        (Some x, s3) \<Rightarrow> (x, s3)
      | (None, s3) \<Rightarrow>
          (case build_index (assign_doc_ids found) s3 of
             (Some x, s4) \<Rightarrow> (x, s4)
           | (None, s4) \<Rightarrow> (Exit 0, s4\<lparr>out := out s4 @ [''Done.'']\<rparr>)))"
  unfolding main_def Let_def initial_state_def
  using assms by simp

text \<open>
  Claim C7. In a cabinet directory with distinct names, cleanup removes every directory
  child whose name is not \<^verbatim>\<open>.\<close> or \<^verbatim>\<open>..\<close>, with all below it, and nothing else: every
  child that is no directory stays as it is and in its place, and no child appears.
  When the checks of \<^verbatim>\<open>main\<close> pass, rendering starts from the cleaned directory, before
  the converter has run.
\<close>

theorem clean_generated_spec:
  assumes "distinct (map fst cs)"
  shows "(\<forall>n nd. map_of cs n = Some nd \<and> is_dir nd \<and> n \<notin> {''.'', ''..''} \<longrightarrow>
            (\<forall>p. lookup_path (n # p) (clean_generated cs) = None))
       \<and> (\<forall>n nd. map_of cs n = Some nd \<and> \<not> is_dir nd \<longrightarrow> map_of (clean_generated cs) n = Some nd)
       \<and> (\<forall>n. map_of cs n = None \<longrightarrow> map_of (clean_generated cs) n = None)
       \<and> filter (\<lambda>(n, nd). \<not> is_dir nd) (clean_generated cs) = filter (\<lambda>(n, nd). \<not> is_dir nd) cs
       \<and> (\<forall>w found. pandoc_found w \<and> template_is_file (cabinet_dir w) \<and> cabinet_dir w = cs
             \<and> find_docs (repo_root w) (dossiers_root w) = Inr found \<and> found \<noteq> [] \<longrightarrow>
            (\<exists>s2. cabinet s2 = clean_generated cs \<and> runs s2 = [] \<and>
               main w =
                 (case render_dossiers w (sort_key fst (assign_doc_ids found)) s2 of
                    (Some x, s3) \<Rightarrow> (x, s3)
                  | (None, s3) \<Rightarrow>
                      (case build_index (assign_doc_ids found) s3 of
                         (Some x, s4) \<Rightarrow> (x, s4)
                       | (None, s4) \<Rightarrow> (Exit 0, s4\<lparr>out := out s4 @ [''Done.'']\<rparr>)))))"
proof -
  have a: "\<forall>n nd. map_of cs n = Some nd \<and> is_dir nd \<and> n \<notin> {''.'', ''..''} \<longrightarrow>
            (\<forall>p. lookup_path (n # p) (clean_generated cs) = None)"
    using map_of_clean_gone[OF assms] lookup_path_gone by blast
  have b: "\<forall>n nd. map_of cs n = Some nd \<and> \<not> is_dir nd \<longrightarrow> map_of (clean_generated cs) n = Some nd"
    using map_of_clean_keep by blast
  have c: "\<forall>n. map_of cs n = None \<longrightarrow> map_of (clean_generated cs) n = None"
    using map_of_clean_none by blast
  have d: "filter (\<lambda>(n, nd). \<not> is_dir nd) (clean_generated cs) = filter (\<lambda>(n, nd). \<not> is_dir nd) cs"
    unfolding clean_generated_def filter_filter by (rule filter_cong) auto
  have e: "\<exists>s2. cabinet s2 = clean_generated cs \<and> runs s2 = [] \<and>
               main w =
                 (case render_dossiers w (sort_key fst (assign_doc_ids found)) s2 of
                    (Some x, s3) \<Rightarrow> (x, s3)
                  | (None, s3) \<Rightarrow>
                      (case build_index (assign_doc_ids found) s3 of
                         (Some x, s4) \<Rightarrow> (x, s4)
                       | (None, s4) \<Rightarrow> (Exit 0, s4\<lparr>out := out s4 @ [''Done.'']\<rparr>)))"
    if h: "pandoc_found w" "template_is_file (cabinet_dir w)" "cabinet_dir w = cs"
       "find_docs (repo_root w) (dossiers_root w) = Inr found" "found \<noteq> []" for w found
  proof (intro exI conjI)
    show "main w =
       (case render_dossiers w (sort_key fst (assign_doc_ids found))
          \<lparr>cabinet = clean_generated cs,
           out = [''Cabinet: '' @ dec (sum_list (map (\<lambda>(dossier, entries). length entries) (assign_doc_ids found)))
                   @ '' docs across '' @ dec (length (assign_doc_ids found)) @ '' dossiers''],
           err = [], runs = []\<rparr> of
          (Some x, s3) \<Rightarrow> (x, s3)
        | (None, s3) \<Rightarrow>
            (case build_index (assign_doc_ids found) s3 of
               (Some x, s4) \<Rightarrow> (x, s4)
             | (None, s4) \<Rightarrow> (Exit 0, s4\<lparr>out := out s4 @ [''Done.'']\<rparr>)))"
      using main_after_checks[OF h(1,2,4,5)] by (simp only: h(3))
  qed simp_all
  show ?thesis
    apply (intro conjI)
    subgoal using a .
    subgoal using b .
    subgoal using c .
    subgoal using d .
    subgoal using e by blast
    done
qed




lemma find_docs_sample: "find_docs (repo_root sample_world) (dossiers_root sample_world) = Inr sample_found"
  by code_simp

theorem clean_generated_spec_witness:
  "lookup_path [''old'', ''index.html''] (clean_generated sample_cabinet) = None
   \<and> map_of (clean_generated sample_cabinet) ''cabinet-template.html'' = Some (File ''T'')
   \<and> map_of (clean_generated sample_cabinet) ''index-template.html'' = Some (File ''<ul><!-- DRAWERS --></ul>'')
   \<and> (\<exists>s2. cabinet s2 = clean_generated sample_cabinet \<and> runs s2 = [] \<and>
         main sample_world =
           (case render_dossiers sample_world (sort_key fst (assign_doc_ids sample_found)) s2 of
              (Some x, s3) \<Rightarrow> (x, s3)
            | (None, s3) \<Rightarrow>
                (case build_index (assign_doc_ids sample_found) s3 of
                   (Some x, s4) \<Rightarrow> (x, s4)
                 | (None, s4) \<Rightarrow> (Exit 0, s4\<lparr>out := out s4 @ [''Done.'']\<rparr>))))"
proof -
  have d: "distinct (map fst sample_cabinet)" by (simp add: sample_cabinet_def)
  have o: "map_of sample_cabinet ''old'' = Some (Dir [(''index.html'', File ''stale'')])
      \<and> is_dir (Dir [(''index.html'', File ''stale'')]) \<and> ''old'' \<notin> {''.'', ''..''}"
    by (simp add: sample_cabinet_def)
  have t: "map_of sample_cabinet ''cabinet-template.html'' = Some (File ''T'') \<and> \<not> is_dir (File ''T'')"
    by (simp add: sample_cabinet_def)
  have i: "map_of sample_cabinet ''index-template.html'' = Some (File ''<ul><!-- DRAWERS --></ul>'')
      \<and> \<not> is_dir (File ''<ul><!-- DRAWERS --></ul>'')"
    by (simp add: sample_cabinet_def)
  have m: "pandoc_found sample_world \<and> template_is_file (cabinet_dir sample_world)
      \<and> cabinet_dir sample_world = sample_cabinet
      \<and> find_docs (repo_root sample_world) (dossiers_root sample_world) = Inr sample_found
      \<and> sample_found \<noteq> []"
    using find_docs_sample
    by (simp add: sample_world_def sample_cabinet_def template_is_file_def sample_found_def)
  note th = clean_generated_spec[OF d]
  have 1: "lookup_path [''old'', ''index.html''] (clean_generated sample_cabinet) = None"
    using th o by blast
  have 2: "map_of (clean_generated sample_cabinet) ''cabinet-template.html'' = Some (File ''T'')"
    using th t by blast
  have 3: "map_of (clean_generated sample_cabinet) ''index-template.html'' = Some (File ''<ul><!-- DRAWERS --></ul>'')"
    using th i by blast
  have 4: "\<exists>s2. cabinet s2 = clean_generated sample_cabinet \<and> runs s2 = [] \<and>
         main sample_world =
           (case render_dossiers sample_world (sort_key fst (assign_doc_ids sample_found)) s2 of
              (Some x, s3) \<Rightarrow> (x, s3)
            | (None, s3) \<Rightarrow>
                (case build_index (assign_doc_ids sample_found) s3 of
                   (Some x, s4) \<Rightarrow> (x, s4)
                 | (None, s4) \<Rightarrow> (Exit 0, s4\<lparr>out := out s4 @ [''Done.'']\<rparr>)))"
    using th m by blast
  from 1 2 3 4 show ?thesis by (intro conjI)
qed

subsection \<open>Discovery\<close>

lemma collect_entries_Inr:
  "collect_entries r d mds = Inr es \<Longrightarrow>
     length es = length mds \<and> (\<forall>(rel, nd) \<in> set mds. \<not> is_dir nd)"
proof (induction mds arbitrary: es)
  case Nil
  then show ?case by simp
next
  case (Cons md mds)
  obtain rel nd where md: "md = (rel, nd)" by (cases md)
  from Cons.prems obtain content es' where nd: "nd = File content"
      and es': "collect_entries r d mds = Inr es'" and es: "es = mk_entry r d rel content # es'"
    by (auto simp: md split: fsnode.splits sum.splits)
  from Cons.IH[OF es'] show ?case by (simp add: md nd es)
qed

lemma find_docs_loop_keys:
  "find_docs_loop r xs acc = Inr ds \<Longrightarrow>
     fst ` set ds = fst ` set acc \<union> {d. \<exists>docs. (d, docs) \<in> set xs \<and> rglob_md [] docs \<noteq> []}
     \<and> (\<forall>(d, docs) \<in> set xs. \<forall>(rel, nd) \<in> set (rglob_md [] docs). \<not> is_dir nd)"
proof (induction xs arbitrary: acc)
  case Nil
  then show ?case by simp
next
  case (Cons x xs)
  obtain d docs where x: "x = (d, docs)" by (cases x)
  from Cons.prems obtain entries where
      ce: "collect_entries r d (sort_key fst (rglob_md [] docs)) = Inr entries"
      and loop: "find_docs_loop r xs (if entries \<noteq> [] then AList.update d entries acc else acc) = Inr ds"
    by (auto simp: x split: sum.splits)
  from collect_entries_Inr[OF ce]
  have len: "length entries = length (rglob_md [] docs)"
    and files: "\<forall>(rel, nd) \<in> set (rglob_md [] docs). \<not> is_dir nd"
    by simp_all
  have ne: "entries \<noteq> [] \<longleftrightarrow> rglob_md [] docs \<noteq> []"
    using len by (metis length_0_conv)
  note ih = Cons.IH[OF loop]
  have keys: "fst ` set (if entries \<noteq> [] then AList.update d entries acc else acc) =
      fst ` set acc \<union> (if rglob_md [] docs \<noteq> [] then {d} else {})"
    using ne by (auto simp: dom_update)
  show ?case
    using ih files unfolding keys x by (auto split: if_splits)
qed

lemma glob_docs_iff:
  "(d, docs) \<in> set (glob_docs cs) \<longleftrightarrow> (\<exists>sub. (d, Dir sub) \<in> set cs \<and> map_of sub ''docs'' = Some docs)"
  by (auto simp: glob_docs_def split: fsnode.splits option.splits) force+

lemma find_docs_keys:
  assumes "find_docs r (Some (Dir cs)) = Inr ds"
  shows "fst ` set ds = {d. \<exists>sub docs. (d, Dir sub) \<in> set cs \<and> map_of sub ''docs'' = Some docs
                              \<and> rglob_md [] docs \<noteq> []}"
    and "\<forall>d sub docs. (d, Dir sub) \<in> set cs \<and> map_of sub ''docs'' = Some docs \<longrightarrow>
           (\<forall>(rel, nd) \<in> set (rglob_md [] docs). \<not> is_dir nd)"
proof -
  from assms have l: "find_docs_loop r (sort_key fst (glob_docs cs)) [] = Inr ds"
    by (simp add: find_docs_def)
  note k = find_docs_loop_keys[OF l]
  show "fst ` set ds = {d. \<exists>sub docs. (d, Dir sub) \<in> set cs \<and> map_of sub ''docs'' = Some docs
                              \<and> rglob_md [] docs \<noteq> []}"
    using k by (auto simp: glob_docs_iff)
  show "\<forall>d sub docs. (d, Dir sub) \<in> set cs \<and> map_of sub ''docs'' = Some docs \<longrightarrow>
           (\<forall>(rel, nd) \<in> set (rglob_md [] docs). \<not> is_dir nd)"
  proof (intro allI impI)
    fix d sub docs
    assume "(d, Dir sub) \<in> set cs \<and> map_of sub ''docs'' = Some docs"
    then have "(d, docs) \<in> set (sort_key fst (glob_docs cs))"
      by (auto simp: glob_docs_iff)
    then have "(d, docs) \<in> set (sort_key fst (glob_docs cs))" by simp
    moreover have "\<forall>x \<in> set (sort_key fst (glob_docs cs)).
        \<forall>(rel, nd) \<in> set (rglob_md [] (snd x)). \<not> is_dir nd"
      using k by (simp add: case_prod_beta)
    ultimately show "\<forall>(rel, nd) \<in> set (rglob_md [] docs). \<not> is_dir nd"
      by (metis snd_conv)
  qed
qed

lemma assign_doc_ids_keys: "map fst (assign_doc_ids ds) = map fst ds"
  by (simp add: assign_doc_ids_def case_prod_beta comp_def)

text \<open>
  Claim C10. When discovery returns, a collection directory (of a root with distinct
  names) whose \<^verbatim>\<open>docs\<close> folder holds no Markdown file is no key of the result. So it
  gets no code and no IDs, it is no key of the rendering loop and of the index loop (no
  drawer), and the document count is the count over the other collections.
\<close>

theorem find_docs_omits_empty:
  assumes "find_docs r (Some (Dir cs)) = Inr ds"
    and "distinct (map fst cs)"
    and "(d, Dir sub) \<in> set cs"
    and "map_of sub ''docs'' = Some docs"
    and "\<forall>(rel, nd) \<in> set (rglob_md [] docs). is_dir nd"
  shows "d \<notin> fst ` set ds
       \<and> map_of (assign_doc_ids ds) d = None
       \<and> d \<notin> fst ` set (sort_key fst (assign_doc_ids ds))
       \<and> d \<notin> set (sort (map fst (assign_doc_ids ds)))
       \<and> sum_list (map (\<lambda>(dossier, entries). length entries) (assign_doc_ids ds)) =
           sum_list (map (\<lambda>(dossier, entries). length entries) (filter (\<lambda>(dossier, entries). dossier \<noteq> d) ds))"
proof -
  have empty: "rglob_md [] docs = []"
  proof (rule ccontr)
    assume "rglob_md [] docs \<noteq> []"
    then obtain rel nd where m: "(rel, nd) \<in> set (rglob_md [] docs)"
      by (cases "rglob_md [] docs") auto
    then have "is_dir nd" using assms(5) by blast
    moreover have "\<not> is_dir nd" using find_docs_keys(2)[OF assms(1)] assms(3,4) m by blast
    ultimately show False by simp
  qed
  have notin: "d \<notin> fst ` set ds"
  proof
    assume "d \<in> fst ` set ds"
    then obtain sub' docs' where s: "(d, Dir sub') \<in> set cs" "map_of sub' ''docs'' = Some docs'"
        "rglob_md [] docs' \<noteq> []"
      unfolding find_docs_keys(1)[OF assms(1)] by blast
    have "Dir sub' = Dir sub"
      using assms(2,3) s(1) by (meson eq_key_imp_eq_value)
    then show False using s empty assms(4) by simp
  qed
  have k: "fst ` set (assign_doc_ids ds) = fst ` set ds"
    using assign_doc_ids_keys[of ds] by (metis set_map)
  have 2: "map_of (assign_doc_ids ds) d = None"
    using notin k by (simp add: map_of_eq_None_iff)
  have 3: "d \<notin> fst ` set (sort_key fst (assign_doc_ids ds))"
    using notin k by simp
  have 4: "d \<notin> set (sort (map fst (assign_doc_ids ds)))"
    using notin k by simp
  have "\<forall>x \<in> set ds. fst x \<noteq> d"
    using notin by (metis image_eqI)
  then have f: "filter (\<lambda>(dossier, entries). dossier \<noteq> d) ds = ds"
    by (simp add: filter_id_conv case_prod_beta)
  have l: "map (\<lambda>(dossier, entries). length entries) (assign_doc_ids ds) =
      map (\<lambda>(dossier, entries). length entries) ds"
    by (simp add: assign_doc_ids_def case_prod_beta comp_def assign_entries_nth(1))
  from notin 2 3 4 show ?thesis unfolding f l by simp
qed

theorem find_docs_omits_empty_witness:
  "''empty-one'' \<notin> fst ` set sample_found
   \<and> map_of (assign_doc_ids sample_found) ''empty-one'' = None
   \<and> ''empty-one'' \<notin> set (sort (map fst (assign_doc_ids sample_found)))"
proof -
  let ?cs = "[(''alpha-beta'', Dir [(''docs'', Dir [
         (''zed.md'', File ''# Zed <script>''),
         (''core'', Dir [(''intro.md'', File ''intro''), (''notes.txt'', File ''n'')])])]),
     (''empty-one'', Dir [(''docs'', Dir [(''readme.txt'', File ''x'')])])]"
  have 1: "find_docs ''/r'' (Some (Dir ?cs)) = Inr sample_found"
    using find_docs_sample by (simp add: sample_world_def sample_tree_def)
  have 2: "distinct (map fst ?cs)" by simp
  have 3: "(''empty-one'', Dir [(''docs'', Dir [(''readme.txt'', File ''x'')])]) \<in> set ?cs" by simp
  have 4: "map_of [(''docs'', Dir [(''readme.txt'', File ''x'')])] ''docs'' = Some (Dir [(''readme.txt'', File ''x'')])"
    by simp
  have "rglob_md [] (Dir [(''readme.txt'', File ''x'')]) = []" by code_simp
  then have 5: "\<forall>(rel, nd) \<in> set (rglob_md [] (Dir [(''readme.txt'', File ''x'')])). is_dir nd"
    by simp
  from find_docs_omits_empty[OF 1 2 3 4 5] show ?thesis by simp
qed

subsection \<open>A failing converter run\<close>

lemma lookup_path_Cons:
  "lookup_path (n # r) cs =
     (case map_of cs n of
        None \<Rightarrow> None
      | Some nd \<Rightarrow> if r = [] then Some nd
                   else (case nd of Dir sub \<Rightarrow> lookup_path r sub | File _ \<Rightarrow> None))"
  by (cases r) (auto split: option.splits fsnode.splits)

lemma file_at_Nil: "file_at [] cs = None"
  by (simp add: file_at_def)

lemma file_at_Cons:
  "file_at (n # r) cs =
     (case map_of cs n of
        None \<Rightarrow> None
      | Some (File c) \<Rightarrow> if r = [] then Some c else None
      | Some (Dir sub) \<Rightarrow> file_at r sub)"
  by (cases r) (auto simp: file_at_def split: option.splits fsnode.splits)

lemma file_at_empty: "file_at q [] = None"
  by (cases q) (simp_all add: file_at_Nil file_at_Cons)

lemma mkdir_p_files: "mkdir_p ps cs = Inr cs' \<Longrightarrow> file_at q cs' = file_at q cs"
proof (induction ps arbitrary: cs cs' q)
  case Nil
  then show ?case by simp
next
  case (Cons p ps)
  show ?case
  proof (cases q)
    case Nil
    then show ?thesis by (simp add: file_at_Nil)
  next
    case q: (Cons n r)
    show ?thesis
    proof (cases "map_of cs p")
      case None
      with Cons.prems obtain sub where sub: "mkdir_p ps [] = Inr sub"
          and cs': "cs' = AList.update p (Dir sub) cs"
        by (auto split: sum.splits)
      have "file_at r sub = None"
        using Cons.IH[OF sub, of r] by (simp add: file_at_empty)
      then show ?thesis
        using None by (simp add: q cs' file_at_Cons update_conv')
    next
      case (Some nd)
      show ?thesis
      proof (cases nd)
        case (File c)
        with Some Cons.prems show ?thesis by simp
      next
        case (Dir sub0)
        with Some Cons.prems obtain sub where sub: "mkdir_p ps sub0 = Inr sub"
            and cs': "cs' = AList.update p (Dir sub) cs"
          by (auto split: sum.splits)
        have "file_at r sub = file_at r sub0"
          using Cons.IH[OF sub] .
        then show ?thesis
          using Some Dir by (simp add: q cs' file_at_Cons update_conv')
      qed
    qed
  qed
qed


lemma render_doc_unfold:
  "render_doc w d e s =
     (case mkdir_p (output_dir_for d (slug e)) (cabinet s) of
        Inl x \<Rightarrow> (Some (Uncaught x), s)
      | Inr cab1 \<Rightarrow>
         (case relative_to_root (repo_root w) (path e) of
            None \<Rightarrow> (Some (Uncaught ValueError), s\<lparr>cabinet := cab1\<rparr>)
          | Some src \<Rightarrow>
             (case doc_id e of
                None \<Rightarrow> (Some (Uncaught KeyError), s\<lparr>cabinet := cab1\<rparr>)
              | Some i \<Rightarrow>
                 (if fst (pandoc w (pandoc_cmd w d e src i)) \<noteq> 0
                  then (Some (Exit 1),
                        s\<lparr>cabinet := cab1, runs := runs s @ [pandoc_cmd w d e src i],
                          err := err s @ [''FAIL '' @ path e @ '': ''
                             @ py_strip (snd (snd (pandoc w (pandoc_cmd w d e src i))))]\<rparr>)
                  else
                    (case write_file (output_dir_for d (slug e) @ [''index.html''])
                            (fst (snd (pandoc w (pandoc_cmd w d e src i)))) cab1 of
                       Inl x \<Rightarrow> (Some (Uncaught x),
                                 s\<lparr>cabinet := cab1, runs := runs s @ [pandoc_cmd w d e src i]\<rparr>)
                     | Inr cab2 \<Rightarrow>
                         (None,
                          s\<lparr>cabinet := cab2, runs := runs s @ [pandoc_cmd w d e src i],
                            out := out s @ [''  cabinet/'' @ py_join ''/''
                               (output_dir_for d (slug e) @ [''index.html''])]\<rparr>))))))"
  by (simp add: render_doc_def Let_def case_prod_beta split: sum.splits option.splits)


lemma render_doc_stop_files:
  assumes "render_doc w d e s = (Some x, s')"
  shows "(\<forall>q. file_at q (cabinet s') = file_at q (cabinet s)) \<and> out s' = out s"
proof (cases "mkdir_p (output_dir_for d (slug e)) (cabinet s)")
  case (Inl y)
  then show ?thesis using assms by (simp add: render_doc_unfold)
next
  case (Inr cab1)
  note files = mkdir_p_files[OF Inr]
  have "cabinet s' = cab1 \<and> out s' = out s"
    using assms Inr
    by (auto simp: render_doc_unfold split: option.splits if_splits sum.splits)
  then show ?thesis using files by simp
qed









end
